theory Spec2Isabelle
  imports Complex_Main "HOL-Library.Word"
begin

section \<open>Domain types (types.ts)\<close>

text \<open>
  The browser's \<^verbatim>\<open>File\<close> object: only its MIME type, name and contents are read by the
  application. \<^verbatim>\<open>ImageFile\<close> wraps one file (its field \<^verbatim>\<open>file\<close> is \<open>file_of\<close> here).
\<close>

record File =
  ftype :: string
  fname :: string
  fbytes :: string

record ImageFile =
  file_of :: File

record FeatureScore =
  feature :: string
  score :: int

record DetailedScore =
  ratioName :: string
  ratio_value :: string
  deviation :: int

text \<open>
  JavaScript numbers that carry fractions (the normalized overlay coordinates, the
  page height) are read as exact real numbers; scores and deviations, which the response
  schema declares as integers, are \<^typ>\<open>int\<close>.
\<close>

record OverlayLine =
  x1 :: real
  y1 :: real
  x2 :: real
  y2 :: real
  label :: "string option"

datatype ErrorKind = MULTIPLE_FACES | LOW_QUALITY | NO_FACE

record AnalysisResult =
  overallScore :: int
  feedback :: string
  featureScores :: "FeatureScore list"
  detailedScores :: "DetailedScore list"
  overlayLines :: "OverlayLine list"
  error :: "ErrorKind option"
  errorMessage :: "string option"

datatype AppState = Idle | Loading | Result | Error

section \<open>Application controller (App.tsx)\<close>

text \<open>
  The four \<^verbatim>\<open>useState\<close> cells of the \<^verbatim>\<open>App\<close> component. The cell the source calls
  \<^verbatim>\<open>error\<close> is named \<open>errorText\<close> here, since \<open>error\<close> is already the field of
  \<^typ>\<open>AnalysisResult\<close>. A \<^verbatim>\<open>null\<close> cell is \<^const>\<open>None\<close>.
\<close>

record App =
  image :: "ImageFile option"
  analysisResult :: "AnalysisResult option"
  appState :: AppState
  errorText :: "string option"

definition initialApp :: App where
  "initialApp = \<lparr>image = None, analysisResult = None, appState = Idle, errorText = None\<rparr>"

definition acceptedTypes :: "string list" where
  "acceptedTypes = [''image/jpeg'', ''image/png'', ''image/jpg'']"

definition unsupportedTypeMessage :: string where
  "unsupportedTypeMessage =
     ''Unsupported file type. Please upload a photo in JPG or PNG format.''"

text \<open>\<^verbatim>\<open>Array.prototype.includes\<close> on strings is membership by string equality.\<close>

definition handleImageUpload :: "App \<Rightarrow> File \<Rightarrow> App" where
  "handleImageUpload s f =
     (if ftype f \<notin> set acceptedTypes
      then s\<lparr>errorText := Some unsupportedTypeMessage, appState := Error\<rparr>
      else s\<lparr>errorText := None, appState := Idle, image := Some \<lparr>file_of = f\<rparr>\<rparr>)"

definition handleRemoveImage :: "App \<Rightarrow> App" where
  "handleRemoveImage s = s\<lparr>image := None\<rparr>"

definition handleReset :: "App \<Rightarrow> App" where
  "handleReset s =
     s\<lparr>image := None, analysisResult := None, appState := Idle, errorText := None\<rparr>"

text \<open>
  What an \<^verbatim>\<open>await\<close>ed call can throw: an \<^verbatim>\<open>Error\<close> object with its message, or a value
  that is not an instance of \<^verbatim>\<open>Error\<close> (the event a failed \<^verbatim>\<open>FileReader\<close> rejects with).
\<close>

datatype Thrown = JsError string | NotAnError

text \<open>JavaScript truthiness of an optional string: present and not empty.\<close>

definition truthy :: "string option \<Rightarrow> bool" where
  "truthy v = (case v of None \<Rightarrow> False | Some t \<Rightarrow> t \<noteq> [])"

text \<open>
  \<^verbatim>\<open>handleAnalyze\<close> runs in two parts around \<^verbatim>\<open>await analyzeFace(image)\<close>. The part before
  the call either reports the missing image (and makes no call) or enters Loading. The
  part after the call receives what the call settled with, \<open>Inr\<close> a result or \<open>Inl\<close> what
  was thrown, and writes the cells of the state current at that moment.
\<close>

definition handleAnalyze_before :: "App \<Rightarrow> App" where
  "handleAnalyze_before s =
     (if image s = None
      then s\<lparr>errorText := Some ''Please upload an image to analyze.''\<rparr>
      else s\<lparr>appState := Loading, errorText := None\<rparr>)"

definition thrownMessage :: "Thrown \<Rightarrow> string" where
  "thrownMessage e =
     (case e of JsError m \<Rightarrow> m
      | NotAnError \<Rightarrow> ''An unknown error occurred during analysis.'')"

definition handleAnalyze_after :: "App \<Rightarrow> Thrown + AnalysisResult \<Rightarrow> App" where
  "handleAnalyze_after s outcome =
     (case outcome of
        Inr result \<Rightarrow>
          (if error result \<noteq> None \<and> truthy (errorMessage result)
           then s\<lparr>errorText := errorMessage result, appState := Error\<rparr>
           else s\<lparr>analysisResult := Some result, appState := Result\<rparr>)
      | Inl err \<Rightarrow>
          s\<lparr>errorText :=
               Some (''Unable to analyze. Please re-upload a clear image. Details: ''
                     @ thrownMessage err),
            appState := Error\<rparr>)"

section \<open>Analysis client (services/geminiService.ts)\<close>

text \<open>
  The part of a request that carries the image: the base64 payload cut out of the data
  URL and the file's MIME type. \<^verbatim>\<open>dataURL.split(',')[1]\<close> is \<^verbatim>\<open>undefined\<close> (\<^const>\<open>None\<close>)
  when the URL holds no comma.
\<close>

record InlineData =
  payload :: "string option"
  mimeType :: string

fun split_at :: "char \<Rightarrow> string \<Rightarrow> string list" where
  "split_at c [] = [[]]"
| "split_at c (x # xs) =
     (if x = c then [] # split_at c xs
      else (case split_at c xs of
              [] \<Rightarrow> [[x]]
            | w # ws \<Rightarrow> (x # w) # ws))"

definition second_piece :: "string \<Rightarrow> string option" where
  "second_piece url =
     (case split_at CHR '','' url of
        _ # p # _ \<Rightarrow> Some p
      | _ \<Rightarrow> None)"

text \<open>
  The request sent to the service: model name, image part and response MIME type. The
  instruction text and the response schema are constants of the source and the same in
  every request.
\<close>

record Request =
  model :: string
  imagePart :: InlineData
  responseMimeType :: string

text \<open>
  A JavaScript string as the list of its UTF-16 code units. The response text is held
  in this form because \<^verbatim>\<open>String.prototype.trim\<close> strips code units beyond ASCII; the
  other strings of the application are only compared, concatenated or split at a comma.
\<close>

type_synonym JsString = "16 word list"

text \<open>The service's response; its \<^verbatim>\<open>text\<close> accessor may be \<^verbatim>\<open>undefined\<close>.\<close>

record Response =
  text_of :: "JsString option"

text \<open>
  What \<^verbatim>\<open>analyzeFace\<close> takes from outside the repository:
  \<^item> \<open>API_KEY\<close>: \<^verbatim>\<open>process.env.API_KEY\<close>, absent or a string;
  \<^item> \<open>readAsDataURL\<close>: the \<^verbatim>\<open>FileReader\<close>, \<^const>\<open>None\<close> when \<^verbatim>\<open>onerror\<close> fires, else the
    data URL handed to \<^verbatim>\<open>onload\<close>;
  \<^item> \<open>generateContent\<close>: the SDK call, \<open>Inl\<close> what it rejects with or \<open>Inr\<close> the response;
  \<^item> \<open>JSON_parse\<close>: the runtime's \<^verbatim>\<open>JSON.parse\<close>, \<^const>\<open>None\<close> when it throws.
  The value \<^verbatim>\<open>JSON.parse\<close> returns is passed on under the static type
  \<^verbatim>\<open>AnalysisResult\<close> by a type assertion that performs no check, so the model is
  polymorphic in the type \<open>'j\<close> of parsed values.
\<close>

record 'j Runtime =
  API_KEY :: "string option"
  readAsDataURL :: "File \<Rightarrow> string option"
  generateContent :: "Request \<Rightarrow> Thrown + Response"
  JSON_parse :: "JsString \<Rightarrow> 'j option"

definition configurationError :: Thrown where
  "configurationError = JsError ''API_KEY environment variable not set''"

definition inputRequired :: Thrown where
  "inputRequired = JsError ''An image is required for analysis.''"

definition responseParseError :: Thrown where
  "responseParseError =
     JsError ''Could not parse the analysis result from the AI. The response was not valid JSON.''"

text \<open>
  \<^verbatim>\<open>String.prototype.trim\<close> removes, from both ends, the code units that ECMAScript
  calls white space or line terminators: tab, line feed, vertical tab, form feed,
  carriage return, space, the no-break space, the Ogham space mark, the spaces U+2000
  to U+200A, the line and paragraph separators, the narrow no-break space, the medium
  mathematical space, the ideographic space and the byte order mark.
\<close>

definition whiteSpaceUnits :: "16 word list" where
  "whiteSpaceUnits =
     [0x0009, 0x000A, 0x000B, 0x000C, 0x000D, 0x0020, 0x00A0, 0x1680,
      0x2000, 0x2001, 0x2002, 0x2003, 0x2004, 0x2005, 0x2006, 0x2007,
      0x2008, 0x2009, 0x200A, 0x2028, 0x2029, 0x202F, 0x205F, 0x3000, 0xFEFF]"

definition isWhiteSpace :: "16 word \<Rightarrow> bool" where
  "isWhiteSpace c = (c \<in> set whiteSpaceUnits)"

definition trim :: "JsString \<Rightarrow> JsString" where
  "trim t = rev (dropWhile isWhiteSpace (rev (dropWhile isWhiteSpace t)))"

text \<open>A failed read rejects with the reader's event, which is not an \<^verbatim>\<open>Error\<close>.\<close>

definition fileToGenerativePart :: "'j Runtime \<Rightarrow> ImageFile \<Rightarrow> Thrown + InlineData" where
  "fileToGenerativePart rt imageFile =
     (case readAsDataURL rt (file_of imageFile) of
        None \<Rightarrow> Inl NotAnError
      | Some url \<Rightarrow>
          Inr \<lparr>payload = second_piece url, mimeType = ftype (file_of imageFile)\<rparr>)"

definition requestFor :: "InlineData \<Rightarrow> Request" where
  "requestFor part =
     \<lparr>model = ''gemini-2.5-flash'', imagePart = part,
      responseMimeType = ''application/json''\<rparr>"

text \<open>
  \<^verbatim>\<open>analyzeFace\<close> returns what the promise settles with (\<open>Inl\<close> the value thrown, \<open>Inr\<close>
  the value returned) and the list of requests it sent to the service. Inside the
  \<^verbatim>\<open>try\<close> block an \<^verbatim>\<open>undefined\<close> response text makes \<^verbatim>\<open>.trim()\<close> throw, which the
  \<^verbatim>\<open>catch\<close> turns into the parse error like a syntax error of \<^verbatim>\<open>JSON.parse\<close>.
\<close>

definition analyzeFace ::
  "'j Runtime \<Rightarrow> ImageFile option \<Rightarrow> (Thrown + 'j) \<times> Request list" where
  "analyzeFace rt image_arg =
     (if \<not> truthy (API_KEY rt) then (Inl configurationError, [])
      else case image_arg of
        None \<Rightarrow> (Inl inputRequired, [])
      | Some img \<Rightarrow>
          (case fileToGenerativePart rt img of
             Inl e \<Rightarrow> (Inl e, [])
           | Inr part \<Rightarrow>
               (case generateContent rt (requestFor part) of
                  Inl e \<Rightarrow> (Inl e, [requestFor part])
                | Inr response \<Rightarrow>
                    (case text_of response of
                       None \<Rightarrow> (Inl responseParseError, [requestFor part])
                     | Some t \<Rightarrow>
                         (case JSON_parse rt (trim t) of
                            None \<Rightarrow> (Inl responseParseError, [requestFor part])
                          | Some result \<Rightarrow> (Inr result, [requestFor part]))))))"

text \<open>The whole of \<^verbatim>\<open>handleAnalyze\<close> when nothing else happens during the call.\<close>

definition handleAnalyze :: "AnalysisResult Runtime \<Rightarrow> App \<Rightarrow> App" where
  "handleAnalyze rt s =
     (if image s = None then handleAnalyze_before s
      else handleAnalyze_after (handleAnalyze_before s) (fst (analyzeFace rt (image s))))"

subsection \<open>The expected shape of a response\<close>

text \<open>
  Parsed JSON values, and the response schema the source declares (\<^verbatim>\<open>analysisSchema\<close>):
  an object schema lists its properties and the names of the required ones.
\<close>

datatype json =
    JNull
  | JBool bool
  | JNumber real
  | JString string
  | JArray "json list"
  | JObject "(string \<times> json) list"

datatype Schema =
    STRING
  | INTEGER
  | NUMBER
  | ARRAY Schema
  | OBJECT "(string \<times> Schema) list" "string list"

definition analysisSchema :: Schema where
  "analysisSchema =
     OBJECT
       [(''error'', STRING),
        (''errorMessage'', STRING),
        (''overallScore'', INTEGER),
        (''feedback'', STRING),
        (''featureScores'',
           ARRAY (OBJECT [(''feature'', STRING), (''score'', INTEGER)]
                         [''feature'', ''score''])),
        (''detailedScores'',
           ARRAY (OBJECT [(''ratioName'', STRING), (''value'', STRING),
                          (''deviation'', INTEGER)]
                         [''ratioName'', ''value'', ''deviation''])),
        (''overlayLines'',
           ARRAY (OBJECT [(''x1'', NUMBER), (''y1'', NUMBER), (''x2'', NUMBER),
                          (''y2'', NUMBER), (''label'', STRING)]
                         [''x1'', ''y1'', ''x2'', ''y2'']))]
       [''overallScore'', ''feedback'', ''featureScores'', ''detailedScores'',
        ''overlayLines'']"

text \<open>
  A value has the shape of a schema when it has the schema's type, every required
  property of an object is present, and every declared property that is present has
  the shape of its own schema. The members of a parsed object have distinct names.
\<close>

fun hasShape :: "Schema \<Rightarrow> json \<Rightarrow> bool" where
  "hasShape STRING j = (case j of JString _ \<Rightarrow> True | _ \<Rightarrow> False)"
| "hasShape INTEGER j = (case j of JNumber r \<Rightarrow> r \<in> \<int> | _ \<Rightarrow> False)"
| "hasShape NUMBER j = (case j of JNumber _ \<Rightarrow> True | _ \<Rightarrow> False)"
| "hasShape (ARRAY items) j =
     (case j of JArray vs \<Rightarrow> list_all (hasShape items) vs | _ \<Rightarrow> False)"
| "hasShape (OBJECT properties required) j =
     (case j of
        JObject members \<Rightarrow>
          list_all (\<lambda>k. map_of members k \<noteq> None) required \<and>
          list_all (\<lambda>(k, sch). case map_of members k of
                                  None \<Rightarrow> True
                                | Some v \<Rightarrow> hasShape sch v) properties
      | _ \<Rightarrow> False)"

text \<open>
  A stand-in for \<^verbatim>\<open>JSON.parse\<close> that knows one text: it reads \<open>t\<close> as the value \<open>v\<close>
  and rejects every other text. The theorems about \<^const>\<open>analyzeFace\<close> hold for every
  parser; the concrete runs below use this one on texts where it agrees with
  \<^verbatim>\<open>JSON.parse\<close>.
\<close>

definition parsesOnly :: "JsString \<Rightarrow> 'j \<Rightarrow> JsString \<Rightarrow> 'j option" where
  "parsesOnly t v u = (if u = t then Some v else None)"

section \<open>Result renderer (components/AnalysisReport.tsx)\<close>

text \<open>The CSS class that colours the deviation cell of a detail row.\<close>

definition deviationClass :: "int \<Rightarrow> string" where
  "deviationClass d =
     (if d \<le> 5 then ''text-green-400''
      else if d \<le> 15 then ''text-yellow-400''
      else ''text-red-400'')"

record DetailRow =
  nameCell :: string
  valueCell :: string
  deviationCell :: int
  deviationCellClass :: string

definition detailRow :: "DetailedScore \<Rightarrow> DetailRow" where
  "detailRow item =
     \<lparr>nameCell = ratioName item, valueCell = ratio_value item,
      deviationCell = deviation item,
      deviationCellClass = deviationClass (deviation item)\<rparr>"

definition detailRows :: "AnalysisResult \<Rightarrow> DetailRow list" where
  "detailRows result = map detailRow (detailedScores result)"

text \<open>
  The \<^verbatim>\<open>dimensions\<close> state of \<^verbatim>\<open>AnnotatedImage\<close> (the displayed width and height of the
  image) and the \<^verbatim>\<open>line\<close> elements drawn over it.
\<close>

record Dimensions =
  width :: real
  height :: real

record SvgLine =
  svg_x1 :: real
  svg_y1 :: real
  svg_x2 :: real
  svg_y2 :: real

definition svgLine :: "Dimensions \<Rightarrow> OverlayLine \<Rightarrow> SvgLine" where
  "svgLine dimensions line =
     \<lparr>svg_x1 = x1 line * width dimensions,
      svg_y1 = y1 line * height dimensions,
      svg_x2 = x2 line * width dimensions,
      svg_y2 = y2 line * height dimensions\<rparr>"

definition svgLines :: "Dimensions \<Rightarrow> OverlayLine list \<Rightarrow> SvgLine list" where
  "svgLines dimensions lines = map (svgLine dimensions) lines"

section \<open>Report exporter (utils/pdfGenerator.ts)\<close>

text \<open>
  The element whose subtree is exported: the inline background colour the function
  reads and writes (as \<^verbatim>\<open>element.style.backgroundColor\<close> reads it, the empty string
  when none is set), the rest of its inline style and its content, neither of which the
  function writes.
\<close>

record HTMLElement =
  backgroundColor :: string
  otherStyle :: "(string \<times> string) list"
  innerHTML :: string

text \<open>
  The bitmap \<^verbatim>\<open>html2canvas\<close> resolves with: its pixel width and height, and what
  \<^verbatim>\<open>toDataURL\<close> does on it (\<open>Inl\<close> the value thrown, \<open>Inr\<close> the data URL).
\<close>

record Canvas =
  canvasWidth :: nat
  canvasHeight :: nat
  toDataURL :: "string \<Rightarrow> Thrown + string"

record Html2canvasOptions =
  scale :: nat
  useCORS :: bool
  canvasBackground :: string
  logging :: bool

text \<open>
  The quotient of two non-negative JavaScript numbers is a finite number, or
  \<^verbatim>\<open>Infinity\<close> or \<^verbatim>\<open>NaN\<close> when the divisor is zero; a comparison with \<^verbatim>\<open>NaN\<close> is false.
\<close>

datatype JsNumber = Finite real | Infinity | NaN

definition js_divide :: "real \<Rightarrow> real \<Rightarrow> JsNumber" where
  "js_divide a b =
     (if b = 0 then (if a = 0 then NaN else Infinity) else Finite (a / b))"

definition js_greater :: "real \<Rightarrow> JsNumber \<Rightarrow> bool" where
  "js_greater a b = (case b of Finite y \<Rightarrow> a > y | Infinity \<Rightarrow> False | NaN \<Rightarrow> False)"

datatype Orientation = Landscape | Portrait

record PdfOptions =
  orientation :: Orientation
  pdfUnit :: string
  format :: "real \<times> JsNumber"

record ImagePlacement =
  imageData :: string
  imageFormat :: string
  placedLeft :: real
  placedTop :: real
  placedWidth :: real
  placedHeight :: JsNumber

text \<open>
  The document object the \<^verbatim>\<open>jsPDF\<close> constructor returns: each method either returns
  (\<^const>\<open>None\<close>) or throws.
\<close>

record PdfDocument =
  addImage :: "ImagePlacement \<Rightarrow> Thrown option"
  save :: "string \<Rightarrow> Thrown option"

record JspdfModule =
  jsPDF :: "(PdfOptions \<Rightarrow> Thrown + PdfDocument) option"

text \<open>
  The two globals the function reads from \<^verbatim>\<open>window\<close>; \<^const>\<open>None\<close> is \<^verbatim>\<open>undefined\<close>.
\<close>

record Window =
  html2canvas :: "(HTMLElement \<Rightarrow> Html2canvasOptions \<Rightarrow> Thrown + Canvas) option"
  jspdf :: "JspdfModule option"

record SavedPdf =
  savedOptions :: PdfOptions
  savedImage :: ImagePlacement
  savedAs :: string

text \<open>How the promise of an \<^verbatim>\<open>async\<close> function settles.\<close>

datatype Completion = Resolved | Rejected Thrown

text \<open>
  What a run of \<^verbatim>\<open>generatePdf\<close> leaves behind: the element as it is at the end, the
  messages logged with \<^verbatim>\<open>console.error\<close>, the alerts shown, the document saved (if one
  was), and how the returned promise settled.
\<close>

record PdfRun =
  elementAfter :: "HTMLElement option"
  consoleErrors :: "string list"
  alerts :: "string list"
  saved :: "SavedPdf option"
  completion :: Completion

definition captureOptions :: Html2canvasOptions where
  "captureOptions =
     \<lparr>scale = 2, useCORS = True, canvasBackground = ''#262626'', logging = False\<rparr>"

definition librariesMissingAlert :: string where
  "librariesMissingAlert =
     ''Sorry, there was a problem loading the PDF generation library. Please try refreshing the page.''"

definition exportFailedAlert :: string where
  "exportFailedAlert =
     ''An error occurred while generating the PDF report. Please try again.''"

text \<open>Lines 46 to 53: the page is 210 mm wide and as high as the bitmap's proportions ask.\<close>

definition pdfOptionsFor :: "Canvas \<Rightarrow> PdfOptions" where
  "pdfOptionsFor canvas =
     (let pdfWidth = 210;
          pdfHeight = js_divide (real (canvasHeight canvas) * pdfWidth)
                                (real (canvasWidth canvas))
      in \<lparr>orientation = (if js_greater pdfWidth pdfHeight then Landscape else Portrait),
          pdfUnit = ''mm'',
          format = (pdfWidth, pdfHeight)\<rparr>)"

text \<open>
  The body of the \<^verbatim>\<open>try\<close> block, from the element with the capture background set:
  the element as the block leaves it, and either the value thrown or the document saved.
  Every call into a library may throw; the first one that does ends the block.
\<close>

definition tryGenerate ::
  "(HTMLElement \<Rightarrow> Html2canvasOptions \<Rightarrow> Thrown + Canvas) \<Rightarrow>
   (PdfOptions \<Rightarrow> Thrown + PdfDocument) \<Rightarrow> string \<Rightarrow> HTMLElement \<Rightarrow>
   HTMLElement \<times> (Thrown + SavedPdf)" where
  "tryGenerate capture newPdf originalBg element =
     (case capture element captureOptions of
        Inl e \<Rightarrow> (element, Inl e)
      | Inr canvas \<Rightarrow>
          (let restored = element\<lparr>backgroundColor := originalBg\<rparr> in
           case toDataURL canvas ''image/png'' of
             Inl e \<Rightarrow> (restored, Inl e)
           | Inr imgData \<Rightarrow>
               (let opts = pdfOptionsFor canvas;
                    placement =
                      \<lparr>imageData = imgData, imageFormat = ''PNG'', placedLeft = 0, placedTop = 0,
                       placedWidth = fst (format opts), placedHeight = snd (format opts)\<rparr>
                in case newPdf opts of
                     Inl e \<Rightarrow> (restored, Inl e)
                   | Inr pdf \<Rightarrow>
                       (case addImage pdf placement of
                          Some e \<Rightarrow> (restored, Inl e)
                        | None \<Rightarrow>
                            (case save pdf ''Fibonacci-Face-Analysis.pdf'' of
                               Some e \<Rightarrow> (restored, Inl e)
                             | None \<Rightarrow>
                                 (restored,
                                  Inr \<lparr>savedOptions = opts, savedImage = placement,
                                       savedAs = ''Fibonacci-Face-Analysis.pdf''\<rparr>))))))"

text \<open>
  The library check of lines 17 to 22: the capture function and the document
  constructor when \<^verbatim>\<open>window.html2canvas\<close>, \<^verbatim>\<open>window.jspdf\<close> and
  \<^verbatim>\<open>window.jspdf.jsPDF\<close> are all defined, \<^const>\<open>None\<close> when one of them is not.
\<close>

definition librariesOf ::
  "Window \<Rightarrow>
   ((HTMLElement \<Rightarrow> Html2canvasOptions \<Rightarrow> Thrown + Canvas) \<times>
    (PdfOptions \<Rightarrow> Thrown + PdfDocument)) option" where
  "librariesOf w =
     (case html2canvas w of
        None \<Rightarrow> None
      | Some capture \<Rightarrow>
          (case jspdf w of
             None \<Rightarrow> None
           | Some m \<Rightarrow>
               (case jsPDF m of
                  None \<Rightarrow> None
                | Some newPdf \<Rightarrow> Some (capture, newPdf))))"

text \<open>
  \<^verbatim>\<open>generatePdf\<close>: the null check, the library check, the change of the background, the
  \<^verbatim>\<open>try\<close> block and its \<^verbatim>\<open>catch\<close>, which restores the background and alerts. The
  fixed delay before the capture changes nothing of the state and is left out.
\<close>

definition generatePdf :: "Window \<Rightarrow> HTMLElement option \<Rightarrow> PdfRun" where
  "generatePdf w element_arg =
     (case element_arg of
        None \<Rightarrow>
          \<lparr>elementAfter = None,
           consoleErrors = [''PDF generation failed: provided element is null.''],
           alerts = [], saved = None, completion = Resolved\<rparr>
      | Some element \<Rightarrow>
          (case librariesOf w of
             None \<Rightarrow>
               \<lparr>elementAfter = Some element,
                consoleErrors =
                  [''PDF generation failed: html2canvas or jspdf library not found or not correctly loaded.''],
                alerts = [librariesMissingAlert], saved = None, completion = Resolved\<rparr>
           | Some (capture, newPdf) \<Rightarrow>
               (let originalBg = backgroundColor element;
                    recoloured = element\<lparr>backgroundColor := ''#262626''\<rparr>
                in case tryGenerate capture newPdf originalBg recoloured of
                     (after, Inl e) \<Rightarrow>
                       \<lparr>elementAfter = Some (after\<lparr>backgroundColor := originalBg\<rparr>),
                        consoleErrors = [''Error generating PDF:''],
                        alerts = [exportFailedAlert], saved = None,
                        completion = Resolved\<rparr>
                   | (after, Inr document) \<Rightarrow>
                       \<lparr>elementAfter = Some after, consoleErrors = [], alerts = [],
                        saved = Some document, completion = Resolved\<rparr>)))"

section \<open>Concrete inputs\<close>

definition pngFile :: File where
  "pngFile = \<lparr>ftype = ''image/png'', fname = ''face.png'', fbytes = ''PNG''\<rparr>"

definition gifFile :: File where
  "gifFile = \<lparr>ftype = ''image/gif'', fname = ''face.gif'', fbytes = ''GIF''\<rparr>"

definition loadingApp :: App where
  "loadingApp =
     \<lparr>image = Some \<lparr>file_of = pngFile\<rparr>, analysisResult = None,
      appState = Loading, errorText = None\<rparr>"

definition emptyResult :: AnalysisResult where
  "emptyResult =
     \<lparr>overallScore = 0, feedback = [], featureScores = [], detailedScores = [],
      overlayLines = [], error = None, errorMessage = None\<rparr>"

definition multipleFacesResult :: AnalysisResult where
  "multipleFacesResult =
     emptyResult\<lparr>error := Some MULTIPLE_FACES,
       errorMessage := Some ''Please upload a clear photo with only one visible face.''\<rparr>"

definition errorWithoutMessage :: AnalysisResult where
  "errorWithoutMessage = emptyResult\<lparr>error := Some MULTIPLE_FACES\<rparr>"

definition resultApp :: App where
  "resultApp =
     \<lparr>image = Some \<lparr>file_of = pngFile\<rparr>, analysisResult = Some emptyResult,
      appState = Result, errorText = None\<rparr>"

definition errorApp :: App where
  "errorApp =
     \<lparr>image = Some \<lparr>file_of = pngFile\<rparr>, analysisResult = None,
      appState = Error, errorText = Some ''Unable to analyze.''\<rparr>"

text \<open>
  A reader that always loads, and a service that always answers with the same text.
\<close>

definition dataURL :: "File \<Rightarrow> string option" where
  "dataURL f = Some (''data:'' @ ftype f @ '';base64,'' @ fbytes f)"

definition respondsWith :: "JsString \<Rightarrow> Request \<Rightarrow> Thrown + Response" where
  "respondsWith t r = Inr \<lparr>text_of = Some t\<rparr>"

text \<open>The code units of a text written in ASCII.\<close>

definition ascii :: "string \<Rightarrow> JsString" where
  "ascii t = map (\<lambda>c. of_nat (of_char c)) t"

text \<open>
  The text of the empty object between a no-break space and a vertical tab in front
  and a byte order mark and a line separator behind.
\<close>

definition paddedObjectText :: JsString where
  "paddedObjectText = [0x00A0, 0x000B] @ ascii ''{}'' @ [0xFEFF, 0x2028]"

text \<open>
  The service answers with the text of the empty JSON object, padded with blanks;
  \<^verbatim>\<open>JSON.parse\<close> reads the trimmed text as the object without members.
\<close>

definition shapelessRuntime :: "json Runtime" where
  "shapelessRuntime =
     \<lparr>API_KEY = Some ''key'', readAsDataURL = dataURL,
      generateContent = respondsWith (ascii '' {} ''),
      JSON_parse = parsesOnly (ascii ''{}'') (JObject [])\<rparr>"

text \<open>The service answers with prose, which \<^verbatim>\<open>JSON.parse\<close> rejects.\<close>

definition garbledRuntime :: "json Runtime" where
  "garbledRuntime =
     shapelessRuntime\<lparr>generateContent := respondsWith (ascii ''Sorry, I cannot.'')\<rparr>"

definition paddedRuntime :: "json Runtime" where
  "paddedRuntime = shapelessRuntime\<lparr>generateContent := respondsWith paddedObjectText\<rparr>"

definition keylessRuntime :: "json Runtime" where
  "keylessRuntime = shapelessRuntime\<lparr>API_KEY := None\<rparr>"

definition pngImage :: ImageFile where
  "pngImage = \<lparr>file_of = pngFile\<rparr>"

definition pngPart :: InlineData where
  "pngPart = \<lparr>payload = Some ''PNG'', mimeType = ''image/png''\<rparr>"

definition diagonal :: OverlayLine where
  "diagonal = \<lparr>x1 = 1 / 10, y1 = 2 / 10, x2 = 9 / 10, y2 = 8 / 10, label = None\<rparr>"

definition reportElement :: HTMLElement where
  "reportElement =
     \<lparr>backgroundColor = ''white'', otherStyle = [(''padding'', ''8px'')],
      innerHTML = ''report''\<rparr>"

definition pictureOf :: "HTMLElement \<Rightarrow> string \<Rightarrow> Thrown + string" where
  "pictureOf element mime = Inr (''data:'' @ mime @ '';bg='' @ backgroundColor element)"

definition captureAs ::
  "nat \<Rightarrow> nat \<Rightarrow> HTMLElement \<Rightarrow> Html2canvasOptions \<Rightarrow> Thrown + Canvas" where
  "captureAs w h element opts =
     Inr \<lparr>canvasWidth = w, canvasHeight = h, toDataURL = pictureOf element\<rparr>"

definition captureFails :: "HTMLElement \<Rightarrow> Html2canvasOptions \<Rightarrow> Thrown + Canvas" where
  "captureFails element opts = Inl (JsError ''Unable to find element in cloned iframe'')"

definition returnsNormally :: "'a \<Rightarrow> Thrown option" where
  "returnsNormally a = None"

definition newDocument :: "PdfOptions \<Rightarrow> Thrown + PdfDocument" where
  "newDocument opts = Inr \<lparr>addImage = returnsNormally, save = returnsNormally\<rparr>"

definition saveFails :: "string \<Rightarrow> Thrown option" where
  "saveFails name = Some (JsError ''save failed'')"

definition newUnsavableDocument :: "PdfOptions \<Rightarrow> Thrown + PdfDocument" where
  "newUnsavableDocument opts = Inr \<lparr>addImage = returnsNormally, save = saveFails\<rparr>"

definition portraitWindow :: Window where
  "portraitWindow =
     \<lparr>html2canvas = Some (captureAs 800 1200), jspdf = Some \<lparr>jsPDF = Some newDocument\<rparr>\<rparr>"

definition landscapeWindow :: Window where
  "landscapeWindow = portraitWindow\<lparr>html2canvas := Some (captureAs 1200 800)\<rparr>"

definition unsavableWindow :: Window where
  "unsavableWindow = portraitWindow\<lparr>jspdf := Some \<lparr>jsPDF = Some newUnsavableDocument\<rparr>\<rparr>"

definition failingCaptureWindow :: Window where
  "failingCaptureWindow = portraitWindow\<lparr>html2canvas := Some captureFails\<rparr>"

definition emptyWindow :: Window where
  "emptyWindow = \<lparr>html2canvas = None, jspdf = None\<rparr>"

definition portraitCanvas :: Canvas where
  "portraitCanvas =
     \<lparr>canvasWidth = 800, canvasHeight = 1200,
      toDataURL = pictureOf (reportElement\<lparr>backgroundColor := ''#262626''\<rparr>)\<rparr>"

definition landscapeCanvas :: Canvas where
  "landscapeCanvas = portraitCanvas\<lparr>canvasWidth := 1200, canvasHeight := 800\<rparr>"

definition portraitPdf :: SavedPdf where
  "portraitPdf =
     \<lparr>savedOptions = \<lparr>orientation = Portrait, pdfUnit = ''mm'', format = (210, Finite 315)\<rparr>,
      savedImage =
        \<lparr>imageData = ''data:image/png;bg=#262626'', imageFormat = ''PNG'',
         placedLeft = 0, placedTop = 0, placedWidth = 210, placedHeight = Finite 315\<rparr>,
      savedAs = ''Fibonacci-Face-Analysis.pdf''\<rparr>"


section \<open>The controller's transitions\<close>

lemma set_acceptedTypes:
  "set acceptedTypes = {''image/jpeg'', ''image/png'', ''image/jpg''}"
  by (auto simp: acceptedTypes_def)

text \<open>
  Claim C1, as the code has it. The claim as written (an error kind alone sends the
  controller to Error) fails: the guard of \<^verbatim>\<open>handleAnalyze\<close> is
  \<^verbatim>\<open>result.error && result.errorMessage\<close>, so a result whose error kind is set but whose
  message is absent or empty is treated as a success and the controller reaches Result.
\<close>

theorem error_kind_without_message_reaches_Result:
  "appState loadingApp = Loading \<and> error errorWithoutMessage = Some MULTIPLE_FACES \<and>
   appState (handleAnalyze_after loadingApp (Inr errorWithoutMessage)) = Result \<and>
   errorText (handleAnalyze_after loadingApp (Inr errorWithoutMessage)) = None"
  by (simp add: handleAnalyze_after_def loadingApp_def errorWithoutMessage_def
      emptyResult_def truthy_def)

text \<open>
  Claim C1, amended: for every result returned while the controller is in Loading whose
  error kind is set and whose error message is present and not empty, the controller
  moves to Error and the message shown is the result's \<^verbatim>\<open>errorMessage\<close>; no result is
  stored and the image is kept.
\<close>

theorem error_result_reaches_Error:
  assumes "appState s = Loading"
    and "error r = Some k"
    and "errorMessage r = Some m"
    and "m \<noteq> []"
  shows "appState (handleAnalyze_after s (Inr r)) = Error \<and>
         errorText (handleAnalyze_after s (Inr r)) = Some m \<and>
         analysisResult (handleAnalyze_after s (Inr r)) = analysisResult s \<and>
         image (handleAnalyze_after s (Inr r)) = image s"
  using assms by (simp add: handleAnalyze_after_def truthy_def)

theorem multiple_faces_reaches_Error:
  "appState loadingApp = Loading \<and>
   error multipleFacesResult = Some MULTIPLE_FACES \<and>
   errorMessage multipleFacesResult =
     Some ''Please upload a clear photo with only one visible face.'' \<and>
   appState (handleAnalyze_after loadingApp (Inr multipleFacesResult)) = Error \<and>
   errorText (handleAnalyze_after loadingApp (Inr multipleFacesResult)) =
     Some ''Please upload a clear photo with only one visible face.''"
proof -
  have st: "appState loadingApp = Loading"
    by (simp add: loadingApp_def)
  have k: "error multipleFacesResult = Some MULTIPLE_FACES"
    by (simp add: multipleFacesResult_def)
  have m: "errorMessage multipleFacesResult =
      Some ''Please upload a clear photo with only one visible face.''"
    by (simp add: multipleFacesResult_def)
  have ne: "''Please upload a clear photo with only one visible face.'' \<noteq> []"
    by simp
  from error_result_reaches_Error [OF st k m ne] st k m show ?thesis
    by simp
qed

text \<open>
  Claim C3: a file whose MIME type is image/jpeg, image/png or image/jpg is attached as
  the image, with the file (hence its MIME type) unchanged, the controller is in Idle and
  the error text is cleared; for a file of any other MIME type the image cell is not
  written and the controller is in Error with the fixed unsupported-type message.
\<close>

theorem handleImageUpload_accepts_and_rejects:
  "(ftype f \<in> {''image/jpeg'', ''image/png'', ''image/jpg''} \<longrightarrow>
      image (handleImageUpload s f) = Some \<lparr>file_of = f\<rparr> \<and>
      map_option (\<lambda>i. ftype (file_of i)) (image (handleImageUpload s f)) = Some (ftype f) \<and>
      appState (handleImageUpload s f) = Idle \<and>
      errorText (handleImageUpload s f) = None) \<and>
   (ftype f \<notin> {''image/jpeg'', ''image/png'', ''image/jpg''} \<longrightarrow>
      image (handleImageUpload s f) = image s \<and>
      appState (handleImageUpload s f) = Error \<and>
      errorText (handleImageUpload s f) =
        Some ''Unsupported file type. Please upload a photo in JPG or PNG format.'')"
  unfolding handleImageUpload_def set_acceptedTypes unsupportedTypeMessage_def
  by simp

theorem handleImageUpload_png_and_gif:
  "ftype pngFile \<in> {''image/jpeg'', ''image/png'', ''image/jpg''} \<and>
   image (handleImageUpload initialApp pngFile) = Some \<lparr>file_of = pngFile\<rparr> \<and>
   appState (handleImageUpload initialApp pngFile) = Idle \<and>
   ftype gifFile \<notin> {''image/jpeg'', ''image/png'', ''image/jpg''} \<and>
   image (handleImageUpload initialApp gifFile) = None \<and>
   appState (handleImageUpload initialApp gifFile) = Error"
  using handleImageUpload_accepts_and_rejects [of pngFile initialApp]
    handleImageUpload_accepts_and_rejects [of gifFile initialApp]
  by (simp add: pngFile_def gifFile_def initialApp_def)

text \<open>
  Claim C6: reset from Result or from Error yields Idle with no image, no analysis
  result and no error text: the state after reset is the initial state.
\<close>

theorem handleReset_clears_state:
  assumes "appState s = Result \<or> appState s = Error"
  shows "handleReset s =
           \<lparr>image = None, analysisResult = None, appState = Idle, errorText = None\<rparr>"
  by (simp add: handleReset_def)

theorem handleReset_from_Result_and_Error:
  "appState resultApp = Result \<and> handleReset resultApp = initialApp \<and>
   appState errorApp = Error \<and> handleReset errorApp = initialApp"
proof -
  have r: "appState resultApp = Result \<or> appState resultApp = Error"
    by (simp add: resultApp_def)
  have e: "appState errorApp = Result \<or> appState errorApp = Error"
    by (simp add: errorApp_def)
  from handleReset_clears_state [OF r] handleReset_clears_state [OF e] show ?thesis
    by (simp add: initialApp_def resultApp_def errorApp_def)
qed

text \<open>
  Claim C10: when the upload handler rejects a file for its MIME type, the image cell
  keeps its prior value (and so does the stored analysis result); only the state and the
  error text change.
\<close>

theorem rejected_upload_keeps_image:
  assumes "ftype f \<notin> set acceptedTypes"
  shows "image (handleImageUpload s f) = image s \<and>
         analysisResult (handleImageUpload s f) = analysisResult s \<and>
         appState (handleImageUpload s f) = Error \<and>
         errorText (handleImageUpload s f) = Some unsupportedTypeMessage"
  using assms by (simp add: handleImageUpload_def)

theorem rejected_upload_keeps_attached_png:
  "ftype gifFile \<notin> set acceptedTypes \<and>
   image resultApp = Some \<lparr>file_of = pngFile\<rparr> \<and>
   image (handleImageUpload resultApp gifFile) = Some \<lparr>file_of = pngFile\<rparr> \<and>
   appState (handleImageUpload resultApp gifFile) = Error"
proof -
  have g: "ftype gifFile \<notin> set acceptedTypes"
    by (simp add: gifFile_def acceptedTypes_def)
  from rejected_upload_keeps_image [OF g, of resultApp] g show ?thesis
    by (simp add: resultApp_def)
qed

lemma handleAnalyze_without_image:
  "image s = None \<Longrightarrow>
   handleAnalyze rt s = s\<lparr>errorText := Some ''Please upload an image to analyze.''\<rparr>"
  by (simp add: handleAnalyze_def handleAnalyze_before_def)

section \<open>The analysis client's outcomes\<close>

lemma pngPart_of_pngImage:
  "fileToGenerativePart shapelessRuntime pngImage = Inr pngPart"
  by (simp add: fileToGenerativePart_def shapelessRuntime_def pngImage_def pngFile_def
      dataURL_def second_piece_def pngPart_def)

text \<open>
  Claim C2, as the code has it. The claim as written (a parse error whenever the text
  is not structured data of the expected \<^verbatim>\<open>AnalysisResult\<close> shape) fails: the value of
  \<^verbatim>\<open>JSON.parse\<close> is returned under a type assertion, with no check against the schema.
  The text of the empty object is valid JSON, it has none of the five required
  properties, and \<^verbatim>\<open>analyzeFace\<close> returns it.
\<close>

theorem analyzeFace_returns_shapeless_value:
  "\<not> hasShape analysisSchema (JObject []) \<and>
   generateContent shapelessRuntime (requestFor pngPart) =
     Inr \<lparr>text_of = Some (ascii '' {} '')\<rparr> \<and>
   trim (ascii '' {} '') = ascii ''{}'' \<and>
   JSON_parse shapelessRuntime (ascii ''{}'') = Some (JObject []) \<and>
   fst (analyzeFace shapelessRuntime (Some pngImage)) = Inr (JObject [])"
  by (simp add: analyzeFace_def shapelessRuntime_def truthy_def fileToGenerativePart_def
      requestFor_def pngFile_def pngImage_def second_piece_def trim_def isWhiteSpace_def
      whiteSpaceUnits_def ascii_def parsesOnly_def analysisSchema_def dataURL_def
      respondsWith_def)

text \<open>
  Claim C2, amended: \<^verbatim>\<open>analyzeFace\<close> fails with the configuration error when no API
  credential is configured (absent or empty), then with the input-required error when
  the image argument is absent, both before any request is sent. When the file has been
  read and the service has answered, exactly one request has been sent, and
  \<^verbatim>\<open>analyzeFace\<close> fails with the parse error when the response text is absent or
  \<^verbatim>\<open>JSON.parse\<close> rejects the text as \<^verbatim>\<open>String.prototype.trim\<close> leaves it; in every
  other such case it returns the value \<^verbatim>\<open>JSON.parse\<close> produced from the trimmed
  text, whatever its shape. A failure to read the file (no request sent) or a rejection
  by the service (one request sent) is passed on as it is.
\<close>

theorem analyzeFace_outcomes:
  "(\<not> truthy (API_KEY rt) \<longrightarrow>
      analyzeFace rt image_arg = (Inl configurationError, [])) \<and>
   (truthy (API_KEY rt) \<and> image_arg = None \<longrightarrow>
      analyzeFace rt image_arg = (Inl inputRequired, [])) \<and>
   (truthy (API_KEY rt) \<and> image_arg = Some img \<and>
    fileToGenerativePart rt img = Inr part \<and>
    generateContent rt (requestFor part) = Inr response \<longrightarrow>
      snd (analyzeFace rt image_arg) = [requestFor part] \<and>
      (text_of response = None \<longrightarrow>
         fst (analyzeFace rt image_arg) = Inl responseParseError) \<and>
      (\<forall>t. text_of response = Some t \<and> JSON_parse rt (trim t) = None \<longrightarrow>
         fst (analyzeFace rt image_arg) = Inl responseParseError) \<and>
      (\<forall>t v. text_of response = Some t \<and> JSON_parse rt (trim t) = Some v \<longrightarrow>
         fst (analyzeFace rt image_arg) = Inr v)) \<and>
   (truthy (API_KEY rt) \<and> image_arg = Some img \<and>
    fileToGenerativePart rt img = Inl e \<longrightarrow>
      analyzeFace rt image_arg = (Inl e, [])) \<and>
   (truthy (API_KEY rt) \<and> image_arg = Some img \<and>
    fileToGenerativePart rt img = Inr part \<and>
    generateContent rt (requestFor part) = Inl e \<longrightarrow>
      analyzeFace rt image_arg = (Inl e, [requestFor part]))"
  by (auto simp: analyzeFace_def split: option.splits)

lemma trim_examples:
  "trim (ascii '' {} '') = ascii ''{}''"
  "trim paddedObjectText = ascii ''{}''"
  "trim (ascii ''Sorry, I cannot.'') = ascii ''Sorry, I cannot.''"
  by (simp_all add: trim_def isWhiteSpace_def whiteSpaceUnits_def ascii_def
      paddedObjectText_def)

theorem analyzeFace_outcomes_witness:
  "analyzeFace keylessRuntime None = (Inl configurationError, []) \<and>
   analyzeFace shapelessRuntime None = (Inl inputRequired, []) \<and>
   analyzeFace garbledRuntime (Some pngImage) =
     (Inl responseParseError, [requestFor pngPart]) \<and>
   analyzeFace shapelessRuntime (Some pngImage) =
     (Inr (JObject []), [requestFor pngPart]) \<and>
   analyzeFace paddedRuntime (Some pngImage) = (Inr (JObject []), [requestFor pngPart])"
proof -
  have k: "truthy (API_KEY shapelessRuntime)" "truthy (API_KEY garbledRuntime)"
    "truthy (API_KEY paddedRuntime)" "\<not> truthy (API_KEY keylessRuntime)"
    by (simp_all add: shapelessRuntime_def garbledRuntime_def paddedRuntime_def
        keylessRuntime_def truthy_def)
  have p: "fileToGenerativePart garbledRuntime pngImage = Inr pngPart"
    "fileToGenerativePart paddedRuntime pngImage = Inr pngPart"
    using pngPart_of_pngImage
    by (simp_all add: fileToGenerativePart_def garbledRuntime_def paddedRuntime_def)
  have g: "generateContent shapelessRuntime (requestFor pngPart) =
      Inr \<lparr>text_of = Some (ascii '' {} '')\<rparr>"
    "generateContent garbledRuntime (requestFor pngPart) =
      Inr \<lparr>text_of = Some (ascii ''Sorry, I cannot.'')\<rparr>"
    "generateContent paddedRuntime (requestFor pngPart) =
      Inr \<lparr>text_of = Some paddedObjectText\<rparr>"
    by (simp_all add: shapelessRuntime_def garbledRuntime_def paddedRuntime_def
        respondsWith_def)
  have t: "JSON_parse shapelessRuntime (trim (ascii '' {} '')) = Some (JObject [])"
    "JSON_parse garbledRuntime (trim (ascii ''Sorry, I cannot.'')) = None"
    "JSON_parse paddedRuntime (trim paddedObjectText) = Some (JObject [])"
    unfolding trim_examples
    by (simp_all add: shapelessRuntime_def garbledRuntime_def paddedRuntime_def
        parsesOnly_def ascii_def)
  show ?thesis
    using analyzeFace_outcomes [of keylessRuntime None]
      analyzeFace_outcomes [of shapelessRuntime None]
      analyzeFace_outcomes [of garbledRuntime "Some pngImage" pngImage pngPart
        "\<lparr>text_of = Some (ascii ''Sorry, I cannot.'')\<rparr>"]
      analyzeFace_outcomes [of shapelessRuntime "Some pngImage" pngImage pngPart
        "\<lparr>text_of = Some (ascii '' {} '')\<rparr>"]
      analyzeFace_outcomes [of paddedRuntime "Some pngImage" pngImage pngPart
        "\<lparr>text_of = Some paddedObjectText\<rparr>"]
      k p g t pngPart_of_pngImage
    by (simp add: prod_eq_iff)
qed

section \<open>The rendered report\<close>

text \<open>
  Claim C4: the colour band of a detail row depends on the row's deviation alone, with
  the boundaries on the lower side: a deviation of at most 5 gives the good band (green),
  above 5 and at most 15 the warn band (yellow), above 15 the bad band (red).
\<close>

theorem deviationClass_bands:
  "(d \<le> 5 \<longrightarrow> deviationClass d = ''text-green-400'') \<and>
   (5 < d \<and> d \<le> 15 \<longrightarrow> deviationClass d = ''text-yellow-400'') \<and>
   (15 < d \<longrightarrow> deviationClass d = ''text-red-400'') \<and>
   deviationCellClass (detailRow item) = deviationClass (deviation item) \<and>
   map deviationCellClass (detailRows result) =
     map (\<lambda>item. deviationClass (deviation item)) (detailedScores result)"
  by (simp add: deviationClass_def detailRow_def detailRows_def)

theorem deviationClass_boundaries:
  "deviationClass 5 = ''text-green-400'' \<and> deviationClass 6 = ''text-yellow-400'' \<and>
   deviationClass 15 = ''text-yellow-400'' \<and> deviationClass 16 = ''text-red-400''"
  using deviationClass_bands [of 5] deviationClass_bands [of 6]
    deviationClass_bands [of 15] deviationClass_bands [of 16]
  by simp

text \<open>
  Claim C5: an overlay line with normalized coordinates in the unit interval is drawn,
  against a displayed width \<open>W\<close> and height \<open>H\<close>, from \<open>(x1 W, y1 H)\<close> to
  \<open>(x2 W, y2 H)\<close>, and both end points lie within the displayed image when \<open>W\<close> and
  \<open>H\<close> are not negative; one line element is drawn per overlay line, in order.
\<close>

theorem svgLine_scales_coordinates:
  assumes "0 \<le> x1 l \<and> x1 l \<le> 1" and "0 \<le> y1 l \<and> y1 l \<le> 1"
    and "0 \<le> x2 l \<and> x2 l \<le> 1" and "0 \<le> y2 l \<and> y2 l \<le> 1"
  shows "svgLine \<lparr>width = W, height = H\<rparr> l =
           \<lparr>svg_x1 = x1 l * W, svg_y1 = y1 l * H, svg_x2 = x2 l * W, svg_y2 = y2 l * H\<rparr> \<and>
         (0 \<le> W \<and> 0 \<le> H \<longrightarrow>
            0 \<le> svg_x1 (svgLine \<lparr>width = W, height = H\<rparr> l) \<and>
            svg_x1 (svgLine \<lparr>width = W, height = H\<rparr> l) \<le> W \<and>
            0 \<le> svg_y1 (svgLine \<lparr>width = W, height = H\<rparr> l) \<and>
            svg_y1 (svgLine \<lparr>width = W, height = H\<rparr> l) \<le> H \<and>
            0 \<le> svg_x2 (svgLine \<lparr>width = W, height = H\<rparr> l) \<and>
            svg_x2 (svgLine \<lparr>width = W, height = H\<rparr> l) \<le> W \<and>
            0 \<le> svg_y2 (svgLine \<lparr>width = W, height = H\<rparr> l) \<and>
            svg_y2 (svgLine \<lparr>width = W, height = H\<rparr> l) \<le> H) \<and>
         svgLines \<lparr>width = W, height = H\<rparr> ls =
           map (\<lambda>k. \<lparr>svg_x1 = x1 k * W, svg_y1 = y1 k * H,
                      svg_x2 = x2 k * W, svg_y2 = y2 k * H\<rparr>) ls"
proof (intro conjI impI)
  show "svgLine \<lparr>width = W, height = H\<rparr> l =
      \<lparr>svg_x1 = x1 l * W, svg_y1 = y1 l * H, svg_x2 = x2 l * W, svg_y2 = y2 l * H\<rparr>"
    by (simp add: svgLine_def)
  show "svgLines \<lparr>width = W, height = H\<rparr> ls =
      map (\<lambda>k. \<lparr>svg_x1 = x1 k * W, svg_y1 = y1 k * H,
                 svg_x2 = x2 k * W, svg_y2 = y2 k * H\<rparr>) ls"
    by (simp add: svgLines_def svgLine_def)
next
  assume d: "0 \<le> W \<and> 0 \<le> H"
  have unit: "0 \<le> c * D \<and> c * D \<le> D" if "0 \<le> c \<and> c \<le> 1" and "0 \<le> D" for c D :: real
    using that by (simp add: mult_left_le_one_le)
  from unit [OF assms(1)] d
  show "0 \<le> svg_x1 (svgLine \<lparr>width = W, height = H\<rparr> l)"
    "svg_x1 (svgLine \<lparr>width = W, height = H\<rparr> l) \<le> W"
    by (simp_all add: svgLine_def)
  from unit [OF assms(2)] d
  show "0 \<le> svg_y1 (svgLine \<lparr>width = W, height = H\<rparr> l)"
    "svg_y1 (svgLine \<lparr>width = W, height = H\<rparr> l) \<le> H"
    by (simp_all add: svgLine_def)
  from unit [OF assms(3)] d
  show "0 \<le> svg_x2 (svgLine \<lparr>width = W, height = H\<rparr> l)"
    "svg_x2 (svgLine \<lparr>width = W, height = H\<rparr> l) \<le> W"
    by (simp_all add: svgLine_def)
  from unit [OF assms(4)] d
  show "0 \<le> svg_y2 (svgLine \<lparr>width = W, height = H\<rparr> l)"
    "svg_y2 (svgLine \<lparr>width = W, height = H\<rparr> l) \<le> H"
    by (simp_all add: svgLine_def)
qed

theorem svgLine_example:
  "svgLine \<lparr>width = 400, height = 300\<rparr> diagonal =
     \<lparr>svg_x1 = 40, svg_y1 = 60, svg_x2 = 360, svg_y2 = 240\<rparr> \<and>
   svgLines \<lparr>width = 400, height = 300\<rparr> [diagonal] =
     [\<lparr>svg_x1 = 40, svg_y1 = 60, svg_x2 = 360, svg_y2 = 240\<rparr>]"
proof -
  have u: "0 \<le> x1 diagonal \<and> x1 diagonal \<le> 1" "0 \<le> y1 diagonal \<and> y1 diagonal \<le> 1"
    "0 \<le> x2 diagonal \<and> x2 diagonal \<le> 1" "0 \<le> y2 diagonal \<and> y2 diagonal \<le> 1"
    by (simp_all add: diagonal_def)
  from svgLine_scales_coordinates [OF u, of 400 300 "[diagonal]"] show ?thesis
    by (simp add: diagonal_def)
qed

section \<open>The report exporter's runs\<close>

lemma librariesOf_None_iff:
  "librariesOf w = None \<longleftrightarrow>
     html2canvas w = None \<or> jspdf w = None \<or> (\<exists>m. jspdf w = Some m \<and> jsPDF m = None)"
  by (auto simp: librariesOf_def split: option.splits)

lemma tryGenerate_element:
  "fst (tryGenerate capture newPdf bg element) = element \<or>
   fst (tryGenerate capture newPdf bg element) = element\<lparr>backgroundColor := bg\<rparr>"
  by (simp add: tryGenerate_def Let_def split: sum.splits option.splits)

lemma tryGenerate_saved_restored:
  "tryGenerate capture newPdf bg element = (after, Inr d) \<Longrightarrow>
   after = element\<lparr>backgroundColor := bg\<rparr>"
  by (auto simp add: tryGenerate_def Let_def split: sum.splits option.splits)

lemma tryGenerate_saved:
  assumes "tryGenerate capture newPdf bg element = (after, Inr d)"
    and "capture element captureOptions = Inr canvas"
  shows "savedOptions d = pdfOptionsFor canvas \<and>
         savedAs d = ''Fibonacci-Face-Analysis.pdf'' \<and>
         placedLeft (savedImage d) = 0 \<and> placedTop (savedImage d) = 0 \<and>
         (placedWidth (savedImage d), placedHeight (savedImage d)) =
           format (pdfOptionsFor canvas)"
  using assms
  by (auto simp add: tryGenerate_def Let_def split: sum.splits option.splits)

lemma generatePdf_resolves: "completion (generatePdf w element_arg) = Resolved"
  by (simp add: generatePdf_def Let_def split: option.splits prod.splits sum.splits)

lemma js_greater_divide:
  "js_greater 210 (js_divide (real h * 210) (real w)) \<longleftrightarrow> h < w"
  by (auto simp: js_greater_def js_divide_def field_simps)

lemma portrait_run:
  "saved (generatePdf portraitWindow (Some reportElement)) = Some portraitPdf"
  by (simp add: generatePdf_def librariesOf_def portraitWindow_def tryGenerate_def
      captureAs_def pictureOf_def newDocument_def returnsNormally_def reportElement_def
      pdfOptionsFor_def js_divide_def js_greater_def portraitPdf_def Let_def)

text \<open>
  Claim C7, as the code has it. The claim as written (the operation fails, observably
  for its caller, when the libraries are not loaded or when rasterization raises) fails:
  in both situations \<^verbatim>\<open>generatePdf\<close> logs, shows an alert and returns, so the promise
  it returns resolves.
\<close>

theorem generatePdf_failures_resolve:
  "html2canvas emptyWindow = None \<and>
   completion (generatePdf emptyWindow (Some reportElement)) = Resolved \<and>
   html2canvas failingCaptureWindow = Some captureFails \<and>
   captureFails (reportElement\<lparr>backgroundColor := ''#262626''\<rparr>) captureOptions =
     Inl (JsError ''Unable to find element in cloned iframe'') \<and>
   completion (generatePdf failingCaptureWindow (Some reportElement)) = Resolved"
  by (simp add: generatePdf_def librariesOf_def emptyWindow_def failingCaptureWindow_def
      portraitWindow_def tryGenerate_def captureFails_def)

text \<open>
  Claim C7, amended: when \<^verbatim>\<open>html2canvas\<close>, \<^verbatim>\<open>jspdf\<close> or \<^verbatim>\<open>jspdf.jsPDF\<close> is not loaded,
  \<^verbatim>\<open>generatePdf\<close> logs one console error, shows the library alert, saves no document,
  leaves the element as it was and completes normally; when rasterization raises an
  error, it logs one console error, shows the export alert, saves no document, leaves
  the element as it was and completes normally. In both situations the failure is
  reported to the user and not to the caller.
\<close>

theorem generatePdf_reports_by_alert:
  "(html2canvas w = None \<or> jspdf w = None \<or> (\<exists>m. jspdf w = Some m \<and> jsPDF m = None) \<longrightarrow>
      completion (generatePdf w (Some element)) = Resolved \<and>
      consoleErrors (generatePdf w (Some element)) =
        [''PDF generation failed: html2canvas or jspdf library not found or not correctly loaded.''] \<and>
      alerts (generatePdf w (Some element)) = [librariesMissingAlert] \<and>
      saved (generatePdf w (Some element)) = None \<and>
      elementAfter (generatePdf w (Some element)) = Some element) \<and>
   (html2canvas w = Some capture \<and> jspdf w = Some m \<and> jsPDF m = Some newPdf \<and>
    capture (element\<lparr>backgroundColor := ''#262626''\<rparr>) captureOptions = Inl e \<longrightarrow>
      completion (generatePdf w (Some element)) = Resolved \<and>
      consoleErrors (generatePdf w (Some element)) = [''Error generating PDF:''] \<and>
      alerts (generatePdf w (Some element)) = [exportFailedAlert] \<and>
      saved (generatePdf w (Some element)) = None \<and>
      elementAfter (generatePdf w (Some element)) = Some element)"
proof (intro conjI impI)
  assume "html2canvas w = None \<or> jspdf w = None \<or> (\<exists>m. jspdf w = Some m \<and> jsPDF m = None)"
  then have n: "librariesOf w = None"
    by (simp add: librariesOf_None_iff)
  show "completion (generatePdf w (Some element)) = Resolved"
    "consoleErrors (generatePdf w (Some element)) =
      [''PDF generation failed: html2canvas or jspdf library not found or not correctly loaded.'']"
    "alerts (generatePdf w (Some element)) = [librariesMissingAlert]"
    "saved (generatePdf w (Some element)) = None"
    "elementAfter (generatePdf w (Some element)) = Some element"
    using n by (simp_all add: generatePdf_def)
next
  assume a: "html2canvas w = Some capture \<and> jspdf w = Some m \<and> jsPDF m = Some newPdf \<and>
    capture (element\<lparr>backgroundColor := ''#262626''\<rparr>) captureOptions = Inl e"
  then have l: "librariesOf w = Some (capture, newPdf)"
    by (simp add: librariesOf_def)
  from a have t: "tryGenerate capture newPdf (backgroundColor element)
      (element\<lparr>backgroundColor := ''#262626''\<rparr>) =
      (element\<lparr>backgroundColor := ''#262626''\<rparr>, Inl e)"
    by (simp add: tryGenerate_def)
  show "completion (generatePdf w (Some element)) = Resolved"
    "consoleErrors (generatePdf w (Some element)) = [''Error generating PDF:'']"
    "alerts (generatePdf w (Some element)) = [exportFailedAlert]"
    "saved (generatePdf w (Some element)) = None"
    "elementAfter (generatePdf w (Some element)) = Some element"
    using l t by (simp_all add: generatePdf_def)
qed

theorem generatePdf_reports_by_alert_witness:
  "html2canvas emptyWindow = None \<and>
   generatePdf emptyWindow (Some reportElement) =
     \<lparr>elementAfter = Some reportElement,
      consoleErrors =
        [''PDF generation failed: html2canvas or jspdf library not found or not correctly loaded.''],
      alerts = [librariesMissingAlert], saved = None, completion = Resolved\<rparr> \<and>
   captureFails (reportElement\<lparr>backgroundColor := ''#262626''\<rparr>) captureOptions =
     Inl (JsError ''Unable to find element in cloned iframe'') \<and>
   generatePdf failingCaptureWindow (Some reportElement) =
     \<lparr>elementAfter = Some reportElement, consoleErrors = [''Error generating PDF:''],
      alerts = [exportFailedAlert], saved = None, completion = Resolved\<rparr>"
proof -
  have e: "html2canvas emptyWindow = None"
    by (simp add: emptyWindow_def)
  have f: "html2canvas failingCaptureWindow = Some captureFails \<and>
      jspdf failingCaptureWindow = Some \<lparr>jsPDF = Some newDocument\<rparr> \<and>
      jsPDF \<lparr>jsPDF = Some newDocument\<rparr> = Some newDocument \<and>
      captureFails (reportElement\<lparr>backgroundColor := ''#262626''\<rparr>) captureOptions =
        Inl (JsError ''Unable to find element in cloned iframe'')"
    by (simp add: failingCaptureWindow_def portraitWindow_def captureFails_def)
  show ?thesis
    using generatePdf_reports_by_alert [of emptyWindow reportElement] e
      generatePdf_reports_by_alert [of failingCaptureWindow reportElement captureFails
        "\<lparr>jsPDF = Some newDocument\<rparr>" newDocument
        "JsError ''Unable to find element in cloned iframe''"] f
    by (simp add: PdfRun.equality)
qed

text \<open>
  Claim C8: whatever the libraries do (the capture, the data URL, the constructor,
  \<^verbatim>\<open>addImage\<close> or \<^verbatim>\<open>save\<close> returning or throwing), the element at the end of
  \<^verbatim>\<open>generatePdf\<close> is the element it was given: the background colour is the original
  one again, and the rest of the style and the content were never written.
\<close>

theorem generatePdf_restores_element:
  "elementAfter (generatePdf w (Some element)) = Some element"
proof (cases "librariesOf w")
  case None
  then show ?thesis by (simp add: generatePdf_def)
next
  case (Some libs)
  obtain capture newPdf where libs: "libs = (capture, newPdf)"
    by (cases libs)
  let ?bg = "backgroundColor element"
  let ?el = "element\<lparr>backgroundColor := ''#262626''\<rparr>"
  obtain after res where t: "tryGenerate capture newPdf ?bg ?el = (after, res)"
    by (cases "tryGenerate capture newPdf ?bg ?el")
  show ?thesis
  proof (cases res)
    case (Inl e)
    from tryGenerate_element [of capture newPdf ?bg ?el] t
    have "after\<lparr>backgroundColor := ?bg\<rparr> = element" by auto
    with Some libs t Inl show ?thesis by (simp add: generatePdf_def)
  next
    case (Inr d)
    with t have "after = ?el\<lparr>backgroundColor := ?bg\<rparr>"
      using tryGenerate_saved_restored by blast
    with Some libs t Inr show ?thesis by (simp add: generatePdf_def)
  qed
qed

text \<open>
  Three runs on an element with a white background: one that saves the document (the
  bitmap was taken while the background was the capture colour), one whose \<^verbatim>\<open>save\<close>
  throws after the capture, and one whose capture throws.
\<close>

theorem generatePdf_restores_element_runs:
  "backgroundColor reportElement = ''white'' \<and>
   elementAfter (generatePdf portraitWindow (Some reportElement)) = Some reportElement \<and>
   map_option (\<lambda>d. imageData (savedImage d))
     (saved (generatePdf portraitWindow (Some reportElement))) =
     Some ''data:image/png;bg=#262626'' \<and>
   elementAfter (generatePdf unsavableWindow (Some reportElement)) = Some reportElement \<and>
   alerts (generatePdf unsavableWindow (Some reportElement)) = [exportFailedAlert] \<and>
   elementAfter (generatePdf failingCaptureWindow (Some reportElement)) = Some reportElement"
  using generatePdf_restores_element [of portraitWindow reportElement]
    generatePdf_restores_element [of unsavableWindow reportElement]
    generatePdf_restores_element [of failingCaptureWindow reportElement]
  by (simp add: generatePdf_def librariesOf_def portraitWindow_def unsavableWindow_def
      tryGenerate_def captureAs_def pictureOf_def newDocument_def newUnsavableDocument_def
      returnsNormally_def saveFails_def reportElement_def Let_def)

text \<open>
  Claim C9: for a captured bitmap of width \<open>w\<close> and height \<open>h\<close> the document is created
  in portrait orientation when \<open>h \<ge> w\<close> and in landscape orientation otherwise; when
  \<open>w\<close> is positive its page is 210 wide and has the bitmap's ratio of height to width;
  and a document that a run saves was created with these options from the bitmap
  captured in that run, with the image filling the page, under the fixed file name.
\<close>

theorem pdf_page_follows_bitmap:
  "orientation (pdfOptionsFor canvas) =
     (if canvasHeight canvas \<ge> canvasWidth canvas then Portrait else Landscape) \<and>
   (0 < canvasWidth canvas \<longrightarrow>
      (\<exists>pageHeight. format (pdfOptionsFor canvas) = (210, Finite pageHeight) \<and>
         pageHeight / 210 = real (canvasHeight canvas) / real (canvasWidth canvas))) \<and>
   (html2canvas w = Some capture \<and>
    capture (element\<lparr>backgroundColor := ''#262626''\<rparr>) captureOptions = Inr canvas \<and>
    saved (generatePdf w (Some element)) = Some d \<longrightarrow>
      savedOptions d = pdfOptionsFor canvas \<and>
      (placedWidth (savedImage d), placedHeight (savedImage d)) =
        format (pdfOptionsFor canvas) \<and>
      savedAs d = ''Fibonacci-Face-Analysis.pdf'')"
proof (intro conjI impI)
  show "orientation (pdfOptionsFor canvas) =
     (if canvasHeight canvas \<ge> canvasWidth canvas then Portrait else Landscape)"
    by (simp add: pdfOptionsFor_def Let_def js_greater_divide)
next
  assume "0 < canvasWidth canvas"
  then show "\<exists>pageHeight. format (pdfOptionsFor canvas) = (210, Finite pageHeight) \<and>
         pageHeight / 210 = real (canvasHeight canvas) / real (canvasWidth canvas)"
    by (simp add: pdfOptionsFor_def Let_def js_divide_def)
next
  assume a: "html2canvas w = Some capture \<and>
    capture (element\<lparr>backgroundColor := ''#262626''\<rparr>) captureOptions = Inr canvas \<and>
    saved (generatePdf w (Some element)) = Some d"
  then obtain newPdf where l: "librariesOf w = Some (capture, newPdf)"
    by (cases "librariesOf w") (auto simp: generatePdf_def librariesOf_def split: option.splits)
  obtain after res where t: "tryGenerate capture newPdf (backgroundColor element)
      (element\<lparr>backgroundColor := ''#262626''\<rparr>) = (after, res)"
    by (cases "tryGenerate capture newPdf (backgroundColor element)
      (element\<lparr>backgroundColor := ''#262626''\<rparr>)")
  from a l t have "res = Inr d"
    by (cases res) (simp_all add: generatePdf_def)
  with t a have s: "savedOptions d = pdfOptionsFor canvas \<and>
      savedAs d = ''Fibonacci-Face-Analysis.pdf'' \<and>
      placedLeft (savedImage d) = 0 \<and> placedTop (savedImage d) = 0 \<and>
      (placedWidth (savedImage d), placedHeight (savedImage d)) =
        format (pdfOptionsFor canvas)"
    using tryGenerate_saved by blast
  from s show "savedOptions d = pdfOptionsFor canvas" by simp
  from s show "(placedWidth (savedImage d), placedHeight (savedImage d)) =
      format (pdfOptionsFor canvas)"
    by simp
  from s show "savedAs d = ''Fibonacci-Face-Analysis.pdf''" by simp
qed

theorem pdf_page_examples:
  "orientation (pdfOptionsFor portraitCanvas) = Portrait \<and>
   format (pdfOptionsFor portraitCanvas) = (210, Finite 315) \<and>
   orientation (pdfOptionsFor landscapeCanvas) = Landscape \<and>
   format (pdfOptionsFor landscapeCanvas) = (210, Finite 140) \<and>
   saved (generatePdf portraitWindow (Some reportElement)) = Some portraitPdf \<and>
   savedOptions portraitPdf = pdfOptionsFor portraitCanvas"
proof -
  have w: "0 < canvasWidth portraitCanvas" "0 < canvasWidth landscapeCanvas"
    by (simp_all add: portraitCanvas_def landscapeCanvas_def)
  have c: "html2canvas portraitWindow = Some (captureAs 800 1200) \<and>
      captureAs 800 1200 (reportElement\<lparr>backgroundColor := ''#262626''\<rparr>) captureOptions =
        Inr portraitCanvas"
    by (simp add: portraitWindow_def captureAs_def portraitCanvas_def)
  have p: "format (pdfOptionsFor portraitCanvas) = (210, Finite 315)"
    using pdf_page_follows_bitmap [of portraitCanvas] w
    by (auto simp: portraitCanvas_def)
  have l: "format (pdfOptionsFor landscapeCanvas) = (210, Finite 140)"
    using pdf_page_follows_bitmap [of landscapeCanvas] w
    by (auto simp: portraitCanvas_def landscapeCanvas_def)
  show ?thesis
    using pdf_page_follows_bitmap [of portraitCanvas portraitWindow "captureAs 800 1200"
        reportElement portraitPdf]
      pdf_page_follows_bitmap [of landscapeCanvas] c p l portrait_run
    by (simp add: portraitCanvas_def landscapeCanvas_def)
qed

end
